theory Spec2Isabelle
  imports Main
begin

section \<open>Data model (tienda/models.py)\<close>

text \<open>
  The rows of the three tables the cart views read and write. Only the columns the
  views look at are kept: for \<open>Producto\<close> the primary key, the category key, the three
  text columns the catalogue searches, \<open>stock\<close> and the creation time the catalogue sorts
  by; for \<open>Carrito\<close> the primary key and the owning user; for \<open>ItemCarrito\<close> the primary
  key, the two foreign keys and \<open>cantidad\<close>.

  \<open>stock\<close> and \<open>cantidad\<close> are \<open>PositiveIntegerField\<close>s. In the views they are plain
  Python integers, so they are \<open>int\<close> here, and nothing in the model relies on the
  database refusing a negative value: where a value stays non-negative, that is proved
  from the code of the view.
\<close>

record producto =
  p_id :: nat
  categoria_id :: nat
  nombre :: string
  marca :: string
  modelo :: string
  stock :: int
  creado :: nat

record carrito =
  c_id :: nat
  usuario :: nat

record item_carrito =
  i_id :: nat
  carrito_id :: nat
  producto_id :: nat
  cantidad :: int

text \<open>
  The database: one list of rows per table, in insertion order, and, for the two tables
  the views insert into, the next value of the table's key sequence. A sequence only
  moves forward: a key is not given out again after its row is deleted.
\<close>

record bd =
  productos :: "producto list"
  carritos :: "carrito list"
  items :: "item_carrito list"
  seq_carrito :: nat
  seq_item :: nat

section \<open>Queries, exceptions and responses\<close>

text \<open>
  \<open>QuerySet.get()\<close> has three outcomes: no row (\<open>DoesNotExist\<close>), exactly one row, or
  several rows (\<open>MultipleObjectsReturned\<close>). \<open>get_object_or_404\<close> turns only the first
  into a 404; the third propagates as an uncaught exception.
\<close>

datatype 'a consulta = Ninguno | Uno 'a | Varios

fun objects_get :: "'a list \<Rightarrow> 'a consulta" where
  "objects_get [] = Ninguno"
| "objects_get [x] = Uno x"
| "objects_get (x # y # zs) = Varios"

datatype excepcion = MultipleObjectsReturned | DoesNotExist | ValueError

datatype vista = Ver_carrito | Catalogo

datatype nivel = Msg_success | Msg_warning | Msg_error

text \<open>
  The flash messages of the views, with the values interpolated into them
  (the product's \<open>nombre\<close>, and the stock where the message prints it).
\<close>

datatype mensaje =
    Otra_unidad string
  | Sin_stock string
  | Anadido string
  | Incrementado string
  | Sin_stock_disponible string int
  | Reducido string
  | Eliminado string
  | Cantidad_actualizada string
  | Cantidad_no_valida
  | Carrito_vaciado
  | Carrito_sin_productos
  | Pago_procesado

datatype respuesta =
    Redirect vista nivel mensaje
  | Http404
  | Error500 excepcion

text \<open>
  A request parameter that the code passes to \<open>int()\<close>: absent, the empty string, a text
  that \<open>int()\<close> accepts (with its value), or any other text.
\<close>

datatype parametro = Ausente | Vacio | Numero int | Otro_texto

section \<open>Persistence primitives\<close>

definition get_producto :: "bd \<Rightarrow> nat \<Rightarrow> producto consulta" where
  "get_producto s pid = objects_get (filter (\<lambda>p. p_id p = pid) (productos s))"

definition get_carrito :: "bd \<Rightarrow> nat \<Rightarrow> carrito consulta" where
  "get_carrito s u = objects_get (filter (\<lambda>c. usuario c = u) (carritos s))"

text \<open>\<open>Carrito.objects.get_or_create(usuario=request.user)\<close>\<close>

definition get_or_create_carrito :: "bd \<Rightarrow> nat \<Rightarrow> excepcion + carrito \<times> bd" where
  "get_or_create_carrito s u =
     (case get_carrito s u of
        Uno c \<Rightarrow> Inr (c, s)
      | Ninguno \<Rightarrow>
          (let c = \<lparr>c_id = seq_carrito s, usuario = u\<rparr>
           in Inr (c, s\<lparr>carritos := carritos s @ [c],
                       seq_carrito := Suc (seq_carrito s)\<rparr>))
      | Varios \<Rightarrow> Inl MultipleObjectsReturned)"

text \<open>
  \<open>get_object_or_404(ItemCarrito, id=item_id, carrito__usuario=request.user)\<close>:
  the item with that key whose cart belongs to the user.
\<close>

definition get_item :: "bd \<Rightarrow> nat \<Rightarrow> nat \<Rightarrow> item_carrito consulta" where
  "get_item s item_id u =
     objects_get (filter (\<lambda>i. i_id i = item_id \<and>
        list_ex (\<lambda>c. c_id c = carrito_id i \<and> usuario c = u) (carritos s)) (items s))"

text \<open>
  \<open>save()\<close> of a row read in the same request writes the row with that primary key;
  \<open>delete()\<close> removes it.
\<close>

definition save_item :: "item_carrito \<Rightarrow> bd \<Rightarrow> bd" where
  "save_item it s = s\<lparr>items := map (\<lambda>j. if i_id j = i_id it then it else j) (items s)\<rparr>"

definition delete_item :: "item_carrito \<Rightarrow> bd \<Rightarrow> bd" where
  "delete_item it s = s\<lparr>items := filter (\<lambda>j. i_id j \<noteq> i_id it) (items s)\<rparr>"

definition create_item :: "carrito \<Rightarrow> producto \<Rightarrow> bd \<Rightarrow> bd" where
  "create_item c p s =
     s\<lparr>items := items s @
        [\<lparr>i_id = seq_item s, carrito_id = c_id c,
          producto_id = p_id p, cantidad = 1\<rparr>],
       seq_item := Suc (seq_item s)\<rparr>"

definition save_producto :: "producto \<Rightarrow> bd \<Rightarrow> bd" where
  "save_producto p s =
     s\<lparr>productos := map (\<lambda>q. if p_id q = p_id p then p else q) (productos s)\<rparr>"

text \<open>\<open>carrito.items.all().delete()\<close>\<close>

definition delete_items :: "carrito \<Rightarrow> bd \<Rightarrow> bd" where
  "delete_items c s = s\<lparr>items := filter (\<lambda>i. carrito_id i \<noteq> c_id c) (items s)\<rparr>"

text \<open>
  \<open>item.producto\<close>: the first access to the foreign key reads the product row; a missing
  row raises. The continuation receives the product.
\<close>

definition con_producto ::
  "bd \<Rightarrow> item_carrito \<Rightarrow> (producto \<Rightarrow> respuesta \<times> bd) \<Rightarrow> respuesta \<times> bd" where
  "con_producto s it k =
     (case get_producto s (producto_id it) of
        Uno p \<Rightarrow> k p
      | Ninguno \<Rightarrow> (Error500 DoesNotExist, s)
      | Varios \<Rightarrow> (Error500 MultipleObjectsReturned, s))"

text \<open>
  \<open>carrito.items.select_related('producto').all()\<close>: the items of the cart joined with
  their product rows. Each pair carries its own copy of the product row, as read.
\<close>

definition items_select_related :: "bd \<Rightarrow> carrito \<Rightarrow> (item_carrito \<times> producto) list" where
  "items_select_related s c =
     concat (map (\<lambda>i. map (Pair i) (filter (\<lambda>p. p_id p = producto_id i) (productos s)))
                 (filter (\<lambda>i. carrito_id i = c_id c) (items s)))"

section \<open>The cart views (tienda/views.py)\<close>

text \<open>
  Each view is a function from the database, the authenticated user of the request
  (\<open>request.user\<close>, by its key) and the URL and form parameters to the response and the
  database afterwards. The decorators (\<open>login_required\<close>, \<open>require_POST\<close>) belong to the
  request layer: the functions below are the bodies of the views, as run for a request
  that passed them.

  In \<open>agregar_al_carrito\<close> the last statement reads the user's cart once more and drops the
  result; after \<open>get_or_create\<close> has succeeded exactly one such cart exists, so the read
  cannot fail and is left out.
\<close>

definition agregar_al_carrito :: "bd \<Rightarrow> nat \<Rightarrow> nat \<Rightarrow> respuesta \<times> bd" where
  "agregar_al_carrito s u pid =
     (case get_producto s pid of
        Ninguno \<Rightarrow> (Http404, s)
      | Varios \<Rightarrow> (Error500 MultipleObjectsReturned, s)
      | Uno pro \<Rightarrow>
          (case get_or_create_carrito s u of
             Inl e \<Rightarrow> (Error500 e, s)
           | Inr (car, s1) \<Rightarrow>
               (case objects_get (filter (\<lambda>i. carrito_id i = c_id car \<and>
                                             producto_id i = p_id pro) (items s1)) of
                  Uno it \<Rightarrow>
                    if cantidad it < stock pro
                    then (Redirect Ver_carrito Msg_success (Otra_unidad (nombre pro)),
                          save_item (it\<lparr>cantidad := cantidad it + 1\<rparr>) s1)
                    else (Redirect Ver_carrito Msg_warning (Sin_stock (nombre pro)), s1)
                | Ninguno \<Rightarrow>
                    (Redirect Ver_carrito Msg_success (Anadido (nombre pro)),
                     create_item car pro s1)
                | Varios \<Rightarrow> (Error500 MultipleObjectsReturned, s1))))"

text \<open>\<open>int(request.POST.get('cantidad', 1))\<close>; \<open>None\<close> is the \<open>ValueError\<close>.\<close>

fun int_cantidad :: "parametro \<Rightarrow> int option" where
  "int_cantidad Ausente = Some 1"
| "int_cantidad Vacio = None"
| "int_cantidad (Numero n) = Some n"
| "int_cantidad Otro_texto = None"

definition actualizar_carrito ::
  "bd \<Rightarrow> nat \<Rightarrow> nat \<Rightarrow> string option \<Rightarrow> parametro \<Rightarrow> respuesta \<times> bd" where
  "actualizar_carrito s u item_id action cant =
     (case get_item s item_id u of
        Ninguno \<Rightarrow> (Http404, s)
      | Varios \<Rightarrow> (Error500 MultipleObjectsReturned, s)
      | Uno it \<Rightarrow>
          if action = Some ''increase'' then
            con_producto s it (\<lambda>p.
              if cantidad it < stock p
              then (Redirect Ver_carrito Msg_success (Incrementado (nombre p)),
                    save_item (it\<lparr>cantidad := cantidad it + 1\<rparr>) s)
              else (Redirect Ver_carrito Msg_warning
                      (Sin_stock_disponible (nombre p) (stock p)), s))
          else if action = Some ''decrease'' then
            (if cantidad it > 1
             then (let s' = save_item (it\<lparr>cantidad := cantidad it - 1\<rparr>) s
                   in con_producto s' it (\<lambda>p.
                        (Redirect Ver_carrito Msg_success (Reducido (nombre p)), s')))
             else (let s' = delete_item it s
                   in con_producto s' it (\<lambda>p.
                        (Redirect Ver_carrito Msg_success (Eliminado (nombre p)), s'))))
          else
            (case int_cantidad cant of
               None \<Rightarrow> (Redirect Ver_carrito Msg_error Cantidad_no_valida, s)
             | Some nueva_cantidad \<Rightarrow>
                 if nueva_cantidad \<le> 0
                 then (let s' = delete_item it s
                       in con_producto s' it (\<lambda>p.
                            (Redirect Ver_carrito Msg_success (Eliminado (nombre p)), s')))
                 else con_producto s it (\<lambda>p.
                        if nueva_cantidad > stock p
                        then (Redirect Ver_carrito Msg_warning
                                (Sin_stock_disponible (nombre p) (stock p)), s)
                        else (Redirect Ver_carrito Msg_success
                                (Cantidad_actualizada (nombre p)),
                              save_item (it\<lparr>cantidad := nueva_cantidad\<rparr>) s))))"

definition eliminar_del_carrito :: "bd \<Rightarrow> nat \<Rightarrow> nat \<Rightarrow> respuesta \<times> bd" where
  "eliminar_del_carrito s u item_id =
     (case get_item s item_id u of
        Ninguno \<Rightarrow> (Http404, s)
      | Varios \<Rightarrow> (Error500 MultipleObjectsReturned, s)
      | Uno it \<Rightarrow>
          con_producto s it (\<lambda>p.
            (Redirect Ver_carrito Msg_success (Eliminado (nombre p)), delete_item it s)))"

definition vaciar_carrito :: "bd \<Rightarrow> nat \<Rightarrow> respuesta \<times> bd" where
  "vaciar_carrito s u =
     (case get_carrito s u of
        Ninguno \<Rightarrow> (Http404, s)
      | Varios \<Rightarrow> (Error500 MultipleObjectsReturned, s)
      | Uno c \<Rightarrow> (Redirect Ver_carrito Msg_success Carrito_vaciado, delete_items c s))"

text \<open>
  The first loop of \<open>procesar_pago\<close>: the first product whose stock an item exceeds, if
  any. The second loop: for each item, in order, subtract the quantity from the stock of
  the product copy read with the item, and save that copy.
\<close>

fun verificar_stock :: "(item_carrito \<times> producto) list \<Rightarrow> producto option" where
  "verificar_stock [] = None"
| "verificar_stock ((it, p) # rest) =
     (if cantidad it > stock p then Some p else verificar_stock rest)"

fun actualizar_stock :: "(item_carrito \<times> producto) list \<Rightarrow> bd \<Rightarrow> bd" where
  "actualizar_stock [] s = s"
| "actualizar_stock ((it, p) # rest) s =
     actualizar_stock rest (save_producto (p\<lparr>stock := stock p - cantidad it\<rparr>) s)"

definition procesar_pago :: "bd \<Rightarrow> nat \<Rightarrow> respuesta \<times> bd" where
  "procesar_pago s u =
     (case get_carrito s u of
        Ninguno \<Rightarrow> (Http404, s)
      | Varios \<Rightarrow> (Error500 MultipleObjectsReturned, s)
      | Uno c \<Rightarrow>
          (let its = items_select_related s c in
           if its = [] then (Redirect Ver_carrito Msg_warning Carrito_sin_productos, s)
           else
             (case verificar_stock its of
                Some p \<Rightarrow>
                  (Redirect Ver_carrito Msg_error
                     (Sin_stock_disponible (nombre p) (stock p)), s)
              | None \<Rightarrow>
                  (Redirect Catalogo Msg_success Pago_procesado,
                   delete_items c (actualizar_stock its s)))))"

section \<open>The catalogue and detail views\<close>

text \<open>
  \<open>producto_detalle\<close> is \<open>get_object_or_404(Producto, pk=pk)\<close> followed by the rendering of the
  product found: \<open>Ninguno\<close> is the 404. The stock plays no part.
\<close>

definition producto_detalle :: "bd \<Rightarrow> nat \<Rightarrow> producto consulta" where
  "producto_detalle s pk = get_producto s pk"

text \<open>
  \<open>Paginator(productos_list, 12)\<close>: the number of pages is at least one; \<open>page(n)\<close> is
  the \<open>n\<close>-th slice of twelve. The view falls back to page 1 when the parameter is not an
  integer and to the last page when the number is out of range.
\<close>

definition num_pages :: "'a list \<Rightarrow> nat" where
  "num_pages xs = max 1 ((length xs + 11) div 12)"

definition paginator_page :: "'a list \<Rightarrow> nat \<Rightarrow> 'a list" where
  "paginator_page xs n = take 12 (drop ((n - 1) * 12) xs)"

fun pagina :: "'a list \<Rightarrow> parametro \<Rightarrow> 'a list" where
  "pagina xs Ausente = paginator_page xs 1"
| "pagina xs (Numero n) =
     (if n < 1 \<or> n > int (num_pages xs) then paginator_page xs (num_pages xs)
      else paginator_page xs (nat n))"
| "pagina xs Vacio = paginator_page xs 1"
| "pagina xs Otro_texto = paginator_page xs 1"

text \<open>
  \<open>catalogo\<close>: the products with \<open>stock > 0\<close>, newest first, narrowed by the category and
  by the search text, then one page of them. The case-insensitive containment test of the
  database (\<open>icontains\<close>) is a parameter. A category parameter that is not a number makes
  the filter raise \<open>ValueError\<close>.
\<close>

definition catalogo ::
  "(string \<Rightarrow> string \<Rightarrow> bool) \<Rightarrow> bd \<Rightarrow> parametro \<Rightarrow> string option \<Rightarrow> parametro
     \<Rightarrow> excepcion + producto list" where
  "catalogo icontains s categoria q page =
     (let l0 = rev (sort_key creado (filter (\<lambda>p. stock p > 0) (productos s)));
          l1 = (case categoria of
                  Ausente \<Rightarrow> Inr l0
                | Vacio \<Rightarrow> Inr l0
                | Numero n \<Rightarrow> Inr (filter (\<lambda>p. int (categoria_id p) = n) l0)
                | Otro_texto \<Rightarrow> Inl ValueError)
      in case l1 of
           Inl e \<Rightarrow> Inl e
         | Inr l \<Rightarrow>
             (let l2 = (case q of
                          None \<Rightarrow> l
                        | Some t \<Rightarrow>
                            if t = [] then l
                            else filter (\<lambda>p. icontains (nombre p) t \<or> icontains (marca p) t
                                             \<or> icontains (modelo p) t) l)
              in Inr (pagina l2 page)))"

section \<open>Sequences of cart operations\<close>

datatype operacion =
    Agregar nat nat
  | Actualizar nat nat "string option" parametro
  | Eliminar nat nat
  | Vaciar nat
  | Pagar nat

fun paso :: "operacion \<Rightarrow> bd \<Rightarrow> bd" where
  "paso (Agregar u pid) s = snd (agregar_al_carrito s u pid)"
| "paso (Actualizar u item_id action cant) s = snd (actualizar_carrito s u item_id action cant)"
| "paso (Eliminar u item_id) s = snd (eliminar_del_carrito s u item_id)"
| "paso (Vaciar u) s = snd (vaciar_carrito s u)"
| "paso (Pagar u) s = snd (procesar_pago s u)"

definition ejecutar :: "operacion list \<Rightarrow> bd \<Rightarrow> bd" where
  "ejecutar ops s = fold paso ops s"

text \<open>A database with products and no cart yet; both sequences are at their start.\<close>

definition bd_inicial :: "producto list \<Rightarrow> bd" where
  "bd_inicial ps =
     \<lparr>productos = ps, carritos = [], items = [], seq_carrito = 1, seq_item = 1\<rparr>"

section \<open>State predicates\<close>

definition stock_no_negativo :: "bd \<Rightarrow> bool" where
  "stock_no_negativo s = list_all (\<lambda>p. 0 \<le> stock p) (productos s)"


text \<open>
  Uniqueness: one cart per user (the \<open>OneToOneField\<close>), one item per cart and product.
\<close>

definition unicidad :: "bd \<Rightarrow> bool" where
  "unicidad s \<longleftrightarrow>
     distinct (map usuario (carritos s)) \<and>
     distinct (map (\<lambda>i. (carrito_id i, producto_id i)) (items s))"

section \<open>Example databases\<close>

text \<open>
  Two products, A with stock 5 and B with stock 2; user 7 has a cart holding 3 of A and
  10 of B; user 8 has no cart.
\<close>

definition prod_A :: producto where
  "prod_A = \<lparr>p_id = 1, categoria_id = 1, nombre = ''A'', marca = ''m'', modelo = ''x'',
              stock = 5, creado = 1\<rparr>"

definition prod_B :: producto where
  "prod_B = \<lparr>p_id = 2, categoria_id = 1, nombre = ''B'', marca = ''m'', modelo = ''y'',
              stock = 2, creado = 2\<rparr>"

definition bd_dos_items :: bd where
  "bd_dos_items =
     \<lparr>productos = [prod_A, prod_B],
      carritos = [\<lparr>c_id = 1, usuario = 7\<rparr>],
      items = [\<lparr>i_id = 1, carrito_id = 1, producto_id = 1, cantidad = 3\<rparr>,
               \<lparr>i_id = 2, carrito_id = 1, producto_id = 2, cantidad = 10\<rparr>],
      seq_carrito = 2, seq_item = 3\<rparr>"

text \<open>User 7 has a cart holding 2 of A.\<close>

definition bd_un_item :: bd where
  "bd_un_item =
     \<lparr>productos = [prod_A, prod_B],
      carritos = [\<lparr>c_id = 1, usuario = 7\<rparr>],
      items = [\<lparr>i_id = 1, carrito_id = 1, producto_id = 1, cantidad = 2\<rparr>],
      seq_carrito = 2, seq_item = 2\<rparr>"

text \<open>
  User 7 has a cart with two rows for A, of quantities 2 and 3. The item table has no
  uniqueness constraint on cart and product, so the database accepts the second row
  (entered through the administration site, for one); the cart views never insert it.
\<close>

definition bd_filas_duplicadas :: bd where
  "bd_filas_duplicadas =
     \<lparr>productos = [prod_A, prod_B],
      carritos = [\<lparr>c_id = 1, usuario = 7\<rparr>],
      items = [\<lparr>i_id = 1, carrito_id = 1, producto_id = 1, cantidad = 2\<rparr>,
               \<lparr>i_id = 2, carrito_id = 1, producto_id = 1, cantidad = 3\<rparr>],
      seq_carrito = 2, seq_item = 3\<rparr>"

text \<open>User 7 has a cart with no item in it.\<close>

definition bd_carrito_vacio :: bd where
  "bd_carrito_vacio =
     \<lparr>productos = [prod_A, prod_B], carritos = [\<lparr>c_id = 1, usuario = 7\<rparr>], items = [],
      seq_carrito = 2, seq_item = 1\<rparr>"

text \<open>A product that is out of stock, and nobody has a cart.\<close>

definition prod_agotado :: producto where
  "prod_agotado = \<lparr>p_id = 3, categoria_id = 1, nombre = ''C'', marca = ''m'', modelo = ''z'',
                    stock = 0, creado = 3\<rparr>"

definition bd_agotado :: bd where
  "bd_agotado = bd_inicial [prod_A, prod_agotado]"

text \<open>The catalogue example: A and B in stock, C out of stock; nobody has a cart.\<close>

definition bd_catalogo :: bd where
  "bd_catalogo = bd_inicial [prod_A, prod_agotado, prod_B]"

text \<open>
  The invariant the cart operations maintain on the cart and item tables: unique primary
  keys, each below the next value of its sequence, and \<open>unicidad\<close>.
\<close>

definition inv_unico :: "bd \<Rightarrow> bool" where
  "inv_unico s \<longleftrightarrow>
     distinct (map c_id (carritos s)) \<and> distinct (map i_id (items s)) \<and> unicidad s \<and>
     list_all (\<lambda>k. k < seq_carrito s) (map c_id (carritos s)) \<and>
     list_all (\<lambda>k. k < seq_item s) (map i_id (items s))"

section \<open>Basic facts about the primitives\<close>

lemmas vistas_defs =
  agregar_al_carrito_def actualizar_carrito_def eliminar_del_carrito_def vaciar_carrito_def
  procesar_pago_def get_producto_def get_carrito_def get_or_create_carrito_def get_item_def
  save_item_def delete_item_def create_item_def save_producto_def delete_items_def
  con_producto_def items_select_related_def Let_def

lemmas ejemplos_defs =
  bd_dos_items_def bd_un_item_def bd_filas_duplicadas_def bd_carrito_vacio_def
  bd_agotado_def bd_catalogo_def
  bd_inicial_def prod_A_def prod_B_def prod_agotado_def

lemma objects_get_Uno: "objects_get xs = Uno x \<longleftrightarrow> xs = [x]"
  by (cases xs rule: objects_get.cases) auto

lemma objects_get_Ninguno: "objects_get xs = Ninguno \<longleftrightarrow> xs = []"
  by (cases xs rule: objects_get.cases) auto

lemma in_items_select_related:
  "(it, p) \<in> set (items_select_related s c) \<longleftrightarrow>
     it \<in> set (items s) \<and> carrito_id it = c_id c \<and>
     p \<in> set (productos s) \<and> p_id p = producto_id it"
  by (auto simp: items_select_related_def)

lemma verificar_stock_None:
  "verificar_stock its = None \<longleftrightarrow> (\<forall>x \<in> set its. cantidad (fst x) \<le> stock (snd x))"
  by (induction its rule: verificar_stock.induct) auto

lemma verificar_stock_Some:
  "verificar_stock its = Some q \<Longrightarrow> \<exists>it. (it, q) \<in> set its \<and> stock q < cantidad it"
  by (induction its rule: verificar_stock.induct) (auto split: if_splits)

section \<open>Checkout: failure cases\<close>

text \<open>
  C1. Checkout is all-or-nothing. If the user's cart holds an item whose quantity exceeds
  the stock of its product, \<open>procesar_pago\<close> answers with the insufficient-stock error
  (naming a product of the catalogue) and returns the database exactly as it was: no
  stock is changed and every item, the offending one included, is still there with its
  quantity. The validation loop has run over all items before the first write.
\<close>

theorem procesar_pago_todo_o_nada:
  assumes "get_carrito s u = Uno c"
    and "it \<in> set (items s)" and "carrito_id it = c_id c"
    and "p \<in> set (productos s)" and "p_id p = producto_id it"
    and "stock p < cantidad it"
  shows "\<exists>q \<in> set (productos s).
           procesar_pago s u =
             (Redirect Ver_carrito Msg_error (Sin_stock_disponible (nombre q) (stock q)), s)"
proof -
  let ?its = "items_select_related s c"
  have mem: "(it, p) \<in> set ?its"
    using assms by (simp add: in_items_select_related)
  then have ne: "?its \<noteq> []" by auto
  have "verificar_stock ?its \<noteq> None"
  proof
    assume "verificar_stock ?its = None"
    then have "\<forall>x \<in> set ?its. cantidad (fst x) \<le> stock (snd x)"
      by (simp only: verificar_stock_None)
    then have "cantidad (fst (it, p)) \<le> stock (snd (it, p))"
      using mem by blast
    then show False using assms(6) by simp
  qed
  then obtain q where q: "verificar_stock ?its = Some q" by auto
  then obtain it' where "(it', q) \<in> set ?its"
    using verificar_stock_Some by blast
  then have "q \<in> set (productos s)" by (simp add: in_items_select_related)
  moreover have "procesar_pago s u =
      (Redirect Ver_carrito Msg_error (Sin_stock_disponible (nombre q) (stock q)), s)"
    using assms(1) ne q by (simp add: procesar_pago_def)
  ultimately show ?thesis by blast
qed

text \<open>
  The example of the specification: A (quantity 3, stock 5) and B (quantity 10, stock 2).
\<close>

theorem procesar_pago_todo_o_nada_witness:
  "\<exists>q \<in> set (productos bd_dos_items).
      procesar_pago bd_dos_items 7 =
        (Redirect Ver_carrito Msg_error (Sin_stock_disponible (nombre q) (stock q)),
         bd_dos_items)"
  using procesar_pago_todo_o_nada [of bd_dos_items 7 "\<lparr>c_id = 1, usuario = 7\<rparr>"
      "\<lparr>i_id = 2, carrito_id = 1, producto_id = 2, cantidad = 10\<rparr>" prod_B]
  by (simp add: bd_dos_items_def prod_A_def prod_B_def get_carrito_def)

text \<open>
  C9. Checkout of an empty cart. If the user's cart exists and no item belongs to it,
  \<open>procesar_pago\<close> answers with the empty-cart warning and returns the database exactly
  as it was: no stock, cart or item row is created, deleted or changed.
\<close>

theorem procesar_pago_carrito_vacio:
  assumes "get_carrito s u = Uno c"
    and "\<forall>i \<in> set (items s). carrito_id i \<noteq> c_id c"
  shows "procesar_pago s u = (Redirect Ver_carrito Msg_warning Carrito_sin_productos, s)"
proof -
  have "filter (\<lambda>i. carrito_id i = c_id c) (items s) = []"
    using assms(2) by (auto simp: filter_empty_conv)
  then have "items_select_related s c = []"
    by (simp add: items_select_related_def)
  then show ?thesis using assms(1) by (simp add: procesar_pago_def)
qed

theorem procesar_pago_carrito_vacio_witness:
  "procesar_pago bd_carrito_vacio 7 =
     (Redirect Ver_carrito Msg_warning Carrito_sin_productos, bd_carrito_vacio)"
  using procesar_pago_carrito_vacio [of bd_carrito_vacio 7 "\<lparr>c_id = 1, usuario = 7\<rparr>"]
  by (simp add: bd_carrito_vacio_def get_carrito_def)

section \<open>Adding to the cart\<close>

text \<open>
  C2. \<open>agregar_al_carrito\<close> checks the stock only on the branch where the item already
  exists. At a product with stock 0 that the user has no item for, the view creates the
  item with quantity 1 (and the cart, since the user had none) and reports success: the
  proposed quantity 1 exceeds the stock 0 and nothing refuses it.
\<close>

theorem agregar_al_carrito_sin_stock:
  "agregar_al_carrito bd_agotado 8 3 =
     (Redirect Ver_carrito Msg_success (Anadido ''C''),
      \<lparr>productos = [prod_A, prod_agotado],
       carritos = [\<lparr>c_id = 1, usuario = 8\<rparr>],
       items = [\<lparr>i_id = 1, carrito_id = 1, producto_id = 3, cantidad = 1\<rparr>],
       seq_carrito = 2, seq_item = 2\<rparr>)"
  by (simp add: agregar_al_carrito_def bd_agotado_def bd_inicial_def prod_A_def
      prod_agotado_def get_producto_def get_or_create_carrito_def get_carrito_def
      create_item_def Let_def)

text \<open>
  The sibling branch does validate: when the item exists and one more unit would exceed
  the stock, the view warns and leaves the database as it was.
\<close>

lemma agregar_al_carrito_existente_sin_stock:
  assumes "get_producto s pid = Uno p" and "get_carrito s u = Uno c"
    and "objects_get (filter (\<lambda>i. carrito_id i = c_id c \<and> producto_id i = pid) (items s)) = Uno it"
    and "stock p < cantidad it + 1"
  shows "agregar_al_carrito s u pid = (Redirect Ver_carrito Msg_warning (Sin_stock (nombre p)), s)"
proof -
  have "p_id p = pid"
    using assms(1) by (auto simp: get_producto_def objects_get_Uno filter_eq_Cons_iff)
  then show ?thesis
    using assms by (simp add: agregar_al_carrito_def get_or_create_carrito_def)
qed

section \<open>Emptying the cart\<close>

text \<open>
  C4, as stated, fails: for a user with no cart row \<open>vaciar_carrito\<close> answers 404 and
  creates no cart.
\<close>

theorem vaciar_carrito_sin_carrito:
  "vaciar_carrito bd_agotado 8 = (Http404, bd_agotado) \<and> get_carrito bd_agotado 8 = Ninguno"
  by (simp add: vaciar_carrito_def get_carrito_def bd_agotado_def bd_inicial_def)

text \<open>
  C4, amended. For a user who has a cart row, \<open>vaciar_carrito\<close> succeeds: afterwards no
  item belongs to that cart, the items of other carts, the cart rows and the products are
  as before, and a second call succeeds again and changes nothing. For a user with no cart
  row it answers 404 and changes nothing.
\<close>

theorem vaciar_carrito_existente:
  "(\<forall>c. get_carrito s u = Uno c \<longrightarrow>
      fst (vaciar_carrito s u) = Redirect Ver_carrito Msg_success Carrito_vaciado \<and>
      filter (\<lambda>i. carrito_id i = c_id c) (items (snd (vaciar_carrito s u))) = [] \<and>
      filter (\<lambda>i. carrito_id i \<noteq> c_id c) (items (snd (vaciar_carrito s u))) =
        filter (\<lambda>i. carrito_id i \<noteq> c_id c) (items s) \<and>
      carritos (snd (vaciar_carrito s u)) = carritos s \<and>
      productos (snd (vaciar_carrito s u)) = productos s \<and>
      vaciar_carrito (snd (vaciar_carrito s u)) u =
        (Redirect Ver_carrito Msg_success Carrito_vaciado, snd (vaciar_carrito s u))) \<and>
   (get_carrito s u = Ninguno \<longrightarrow> vaciar_carrito s u = (Http404, s))"
  by (auto simp: vaciar_carrito_def delete_items_def get_carrito_def)

theorem vaciar_carrito_existente_witness:
  "fst (vaciar_carrito bd_dos_items 7) = Redirect Ver_carrito Msg_success Carrito_vaciado \<and>
   items (snd (vaciar_carrito bd_dos_items 7)) = [] \<and>
   carritos (snd (vaciar_carrito bd_dos_items 7)) = [\<lparr>c_id = 1, usuario = 7\<rparr>] \<and>
   vaciar_carrito bd_dos_items 8 = (Http404, bd_dos_items)"
  using vaciar_carrito_existente [of bd_dos_items 7] vaciar_carrito_existente [of bd_dos_items 8]
  by (simp add: bd_dos_items_def get_carrito_def vaciar_carrito_def delete_items_def)

section \<open>Setting the quantity of an item\<close>

lemma map_save_distinct:
  assumes "distinct (map i_id xs)" and "it \<in> set xs"
  shows "map (\<lambda>j. if i_id j = i_id it then it\<lparr>cantidad := n\<rparr> else j) xs =
         map (\<lambda>j. if i_id j = i_id it then j\<lparr>cantidad := n\<rparr> else j) xs"
  using assms by (auto simp: distinct_map inj_on_def)

lemma get_item_Uno:
  assumes "get_item s item_id u = Uno it"
  shows "it \<in> set (items s)" and "i_id it = item_id"
    and "list_ex (\<lambda>c. c_id c = carrito_id it \<and> usuario c = u) (carritos s)"
proof -
  let ?P = "\<lambda>i. i_id i = item_id \<and>
        list_ex (\<lambda>c. c_id c = carrito_id i \<and> usuario c = u) (carritos s)"
  have "filter ?P (items s) = [it]"
    using assms by (simp add: get_item_def objects_get_Uno)
  then have "it \<in> set (filter ?P (items s))" by simp
  then show "it \<in> set (items s)" and "i_id it = item_id"
    and "list_ex (\<lambda>c. c_id c = carrito_id it \<and> usuario c = u) (carritos s)"
    by auto
qed

lemma filter_singleton_distinct:
  assumes "distinct (map i_id xs)" and "it \<in> set xs"
  shows "filter (\<lambda>j. i_id j = i_id it) xs = [it]"
  using assms
proof (induction xs)
  case Nil
  then show ?case by simp
next
  case (Cons x xs)
  show ?case
  proof (cases "x = it")
    case True
    then have "\<forall>j \<in> set xs. i_id j \<noteq> i_id it"
      using Cons.prems(1) by (auto simp: image_iff)
    then have "filter (\<lambda>j. i_id j = i_id it) xs = []"
      by (auto simp: filter_empty_conv)
    then show ?thesis using True by simp
  next
    case False
    then have "it \<in> set xs" using Cons.prems(2) by simp
    moreover have "i_id x \<noteq> i_id it"
      using Cons.prems(1) \<open>it \<in> set xs\<close> by (auto simp: image_iff)
    ultimately show ?thesis using Cons by simp
  qed
qed

lemma get_item_save:
  assumes "get_item s item_id u = Uno it" and "distinct (map i_id (items s))"
  shows "get_item (save_item (it\<lparr>cantidad := n\<rparr>) s) item_id u = Uno (it\<lparr>cantidad := n\<rparr>)"
proof -
  note it = get_item_Uno [OF assms(1)]
  let ?Q = "\<lambda>i. list_ex (\<lambda>c. c_id c = carrito_id i \<and> usuario c = u) (carritos s)"
  let ?f = "\<lambda>j. if i_id j = i_id it then it\<lparr>cantidad := n\<rparr> else j"
  have "filter (\<lambda>i. i_id i = item_id \<and> ?Q i) (map ?f (items s)) =
        map ?f (filter (\<lambda>j. i_id j = i_id it) (items s))"
    using it(2,3) by (auto simp: filter_map o_def intro!: arg_cong [where f = "map ?f"] filter_cong)
  also have "\<dots> = [it\<lparr>cantidad := n\<rparr>]"
    using filter_singleton_distinct [OF assms(2) it(1)] by simp
  finally show ?thesis
    by (simp add: get_item_def save_item_def)
qed

text \<open>
  C5. \<open>actualizar_carrito\<close> with an action other than increase and decrease and a
  requested quantity \<open>n\<close>, on an item of the calling user whose product row exists with a
  non-negative stock: if \<open>n \<le> 0\<close> the item is deleted and the response is a success, the
  same for 0 and for negative values; if \<open>n\<close> exceeds the stock the response is the
  insufficient-stock warning and the database is unchanged; otherwise the item's quantity
  becomes exactly \<open>n\<close> and no other row changes.
\<close>

theorem actualizar_carrito_update:
  assumes "get_item s item_id u = Uno it"
    and "get_producto s (producto_id it) = Uno p"
    and "distinct (map i_id (items s))"
    and "0 \<le> stock p"
    and "action \<noteq> Some ''increase''" and "action \<noteq> Some ''decrease''"
  shows
    "(n \<le> 0 \<longrightarrow>
        fst (actualizar_carrito s u item_id action (Numero n)) =
          Redirect Ver_carrito Msg_success (Eliminado (nombre p)) \<and>
        items (snd (actualizar_carrito s u item_id action (Numero n))) =
          filter (\<lambda>j. i_id j \<noteq> item_id) (items s) \<and>
        get_item (snd (actualizar_carrito s u item_id action (Numero n))) item_id u = Ninguno) \<and>
     (stock p < n \<longrightarrow>
        actualizar_carrito s u item_id action (Numero n) =
          (Redirect Ver_carrito Msg_warning (Sin_stock_disponible (nombre p) (stock p)), s)) \<and>
     (0 < n \<and> n \<le> stock p \<longrightarrow>
        fst (actualizar_carrito s u item_id action (Numero n)) =
          Redirect Ver_carrito Msg_success (Cantidad_actualizada (nombre p)) \<and>
        items (snd (actualizar_carrito s u item_id action (Numero n))) =
          map (\<lambda>j. if i_id j = item_id then j\<lparr>cantidad := n\<rparr> else j) (items s) \<and>
        get_item (snd (actualizar_carrito s u item_id action (Numero n))) item_id u =
          Uno (it\<lparr>cantidad := n\<rparr>))"
proof -
  note it = get_item_Uno [OF assms(1)]
  have prod_del: "get_producto (delete_item it s) (producto_id it) = Uno p"
    using assms(2) by (simp add: get_producto_def delete_item_def)
  have del: "n \<le> 0 \<Longrightarrow> actualizar_carrito s u item_id action (Numero n) =
      (Redirect Ver_carrito Msg_success (Eliminado (nombre p)), delete_item it s)"
    using assms(1,5,6) prod_del by (simp add: actualizar_carrito_def con_producto_def Let_def)
  have nostock: "stock p < n \<Longrightarrow> actualizar_carrito s u item_id action (Numero n) =
      (Redirect Ver_carrito Msg_warning (Sin_stock_disponible (nombre p) (stock p)), s)"
    using assms(1,2,4,5,6) by (simp add: actualizar_carrito_def con_producto_def)
  have upd: "0 < n \<Longrightarrow> n \<le> stock p \<Longrightarrow> actualizar_carrito s u item_id action (Numero n) =
      (Redirect Ver_carrito Msg_success (Cantidad_actualizada (nombre p)),
       save_item (it\<lparr>cantidad := n\<rparr>) s)"
    using assms(1,2,5,6) by (simp add: actualizar_carrito_def con_producto_def)
  have items_del: "items (delete_item it s) = filter (\<lambda>j. i_id j \<noteq> item_id) (items s)"
    using it(2) by (simp add: delete_item_def)
  have get_del: "get_item (delete_item it s) item_id u = Ninguno"
    using it(2) by (auto simp: get_item_def delete_item_def objects_get_Ninguno filter_empty_conv)
  have items_upd: "items (save_item (it\<lparr>cantidad := n\<rparr>) s) =
      map (\<lambda>j. if i_id j = item_id then j\<lparr>cantidad := n\<rparr> else j) (items s)"
    using map_save_distinct [OF assms(3) it(1), of n] it(2) by (simp add: save_item_def)
  show ?thesis
    using del nostock upd items_del get_del items_upd get_item_save [OF assms(1,3), of n]
    by simp
qed

theorem actualizar_carrito_update_witness:
  "items (snd (actualizar_carrito bd_dos_items 7 2 (Some ''update'') (Numero 0))) =
     [\<lparr>i_id = 1, carrito_id = 1, producto_id = 1, cantidad = 3\<rparr>] \<and>
   items (snd (actualizar_carrito bd_dos_items 7 2 (Some ''update'') (Numero (- 5)))) =
     [\<lparr>i_id = 1, carrito_id = 1, producto_id = 1, cantidad = 3\<rparr>] \<and>
   actualizar_carrito bd_dos_items 7 1 (Some ''update'') (Numero 6) =
     (Redirect Ver_carrito Msg_warning (Sin_stock_disponible ''A'' 5), bd_dos_items) \<and>
   items (snd (actualizar_carrito bd_dos_items 7 1 (Some ''update'') (Numero 4))) =
     [\<lparr>i_id = 1, carrito_id = 1, producto_id = 1, cantidad = 4\<rparr>,
      \<lparr>i_id = 2, carrito_id = 1, producto_id = 2, cantidad = 10\<rparr>]"
  using
    actualizar_carrito_update [of bd_dos_items 2 7
      "\<lparr>i_id = 2, carrito_id = 1, producto_id = 2, cantidad = 10\<rparr>" prod_B
      "Some ''update''" 0]
    actualizar_carrito_update [of bd_dos_items 2 7
      "\<lparr>i_id = 2, carrito_id = 1, producto_id = 2, cantidad = 10\<rparr>" prod_B
      "Some ''update''" "- 5"]
    actualizar_carrito_update [of bd_dos_items 1 7
      "\<lparr>i_id = 1, carrito_id = 1, producto_id = 1, cantidad = 3\<rparr>" prod_A
      "Some ''update''" 6]
    actualizar_carrito_update [of bd_dos_items 1 7
      "\<lparr>i_id = 1, carrito_id = 1, producto_id = 1, cantidad = 3\<rparr>" prod_A
      "Some ''update''" 4]
  by (simp add: bd_dos_items_def prod_A_def prod_B_def get_item_def get_producto_def)

section \<open>What the views leave untouched\<close>

lemma objects_get_Uno_mem: "objects_get (filter P xs) = Uno x \<Longrightarrow> x \<in> set xs \<and> P x"
proof -
  assume "objects_get (filter P xs) = Uno x"
  then have "filter P xs = [x]" by (simp add: objects_get_Uno)
  then have "x \<in> set (filter P xs)" by simp
  then show ?thesis by simp
qed

lemma items_actualizar_stock [simp]: "items (actualizar_stock its s) = items s"
  by (induction its s rule: actualizar_stock.induct) (simp_all add: save_producto_def)

lemma carritos_actualizar_stock [simp]: "carritos (actualizar_stock its s) = carritos s"
  by (induction its s rule: actualizar_stock.induct) (simp_all add: save_producto_def)

lemma seq_carrito_actualizar_stock [simp]:
  "seq_carrito (actualizar_stock its s) = seq_carrito s"
  by (induction its s rule: actualizar_stock.induct) (simp_all add: save_producto_def)

lemma seq_item_actualizar_stock [simp]: "seq_item (actualizar_stock its s) = seq_item s"
  by (induction its s rule: actualizar_stock.induct) (simp_all add: save_producto_def)

lemma get_or_create_carrito_items:
  "get_or_create_carrito s u = Inr (c, s1) \<Longrightarrow> items s1 = items s \<and> productos s1 = productos s"
  by (auto simp: get_or_create_carrito_def Let_def split: consulta.splits)

section \<open>Quantities stay positive\<close>















section \<open>Stock never goes negative\<close>

lemma productos_save_item [simp]: "productos (save_item it s) = productos s"
  by (simp add: save_item_def)

lemma productos_delete_item [simp]: "productos (delete_item it s) = productos s"
  by (simp add: delete_item_def)

lemma productos_delete_items [simp]: "productos (delete_items c s) = productos s"
  by (simp add: delete_items_def)

lemma productos_create_item [simp]: "productos (create_item c p s) = productos s"
  by (simp add: create_item_def)

lemma productos_agregar: "productos (snd (agregar_al_carrito s u pid)) = productos s"
  by (auto simp: agregar_al_carrito_def dest: get_or_create_carrito_items
      split: consulta.splits sum.splits)

lemma productos_actualizar:
  "productos (snd (actualizar_carrito s u item_id action cant)) = productos s"
  by (simp add: actualizar_carrito_def con_producto_def Let_def
      split: option.splits consulta.splits)

lemma productos_eliminar: "productos (snd (eliminar_del_carrito s u item_id)) = productos s"
  by (simp add: eliminar_del_carrito_def con_producto_def split: consulta.splits)

lemma productos_vaciar: "productos (snd (vaciar_carrito s u)) = productos s"
  by (simp add: vaciar_carrito_def split: consulta.splits)

lemma sn_save_producto:
  "stock_no_negativo s \<Longrightarrow> 0 \<le> stock p \<Longrightarrow> stock_no_negativo (save_producto p s)"
  by (auto simp: stock_no_negativo_def save_producto_def list_all_iff)

lemma sn_actualizar_stock:
  "\<forall>x \<in> set its. cantidad (fst x) \<le> stock (snd x) \<Longrightarrow> stock_no_negativo s \<Longrightarrow>
   stock_no_negativo (actualizar_stock its s)"
  by (induction its s rule: actualizar_stock.induct) (simp_all add: sn_save_producto)

lemma sn_pagar: "stock_no_negativo s \<Longrightarrow> stock_no_negativo (snd (procesar_pago s u))"
proof -
  assume sn: "stock_no_negativo s"
  have "stock_no_negativo (delete_items c (actualizar_stock its s))"
    if "verificar_stock its = None" for c its
    using that sn sn_actualizar_stock [of its s]
    by (simp add: verificar_stock_None stock_no_negativo_def)
  then show ?thesis using sn
    by (simp add: procesar_pago_def Let_def split: consulta.splits option.splits)
qed

lemma sn_paso:
  assumes "stock_no_negativo s"
  shows "stock_no_negativo (paso op s)"
proof (cases op)
  case (Pagar u)
  then show ?thesis using assms by (simp add: sn_pagar)
qed (use assms in \<open>simp_all add: stock_no_negativo_def productos_agregar productos_actualizar
        productos_eliminar productos_vaciar\<close>)

lemma sn_ejecutar: "stock_no_negativo s \<Longrightarrow> stock_no_negativo (ejecutar ops s)"
  unfolding ejecutar_def by (induction ops arbitrary: s) (simp_all add: sn_paso)

lemma pago_cambia_validado:
  assumes "productos (snd (procesar_pago s u)) \<noteq> productos s"
  shows "\<exists>c. get_carrito s u = Uno c \<and>
           (\<forall>x \<in> set (items_select_related s c). cantidad (fst x) \<le> stock (snd x))"
  using assms
  by (auto simp: procesar_pago_def Let_def verificar_stock_None [symmetric]
      split: consulta.splits option.splits if_splits)

text \<open>
  C6. No oversell. Starting from non-negative stocks, after any sequence of cart requests
  (add, update, remove, clear, checkout) every product's stock is non-negative; and at any
  such point a checkout changes the product table only if the user's cart exists and every
  item read with its product row has a quantity of at most that row's stock.
\<close>

theorem no_sobreventa:
  assumes "stock_no_negativo s"
  shows "stock_no_negativo (ejecutar ops s) \<and>
     (\<forall>u. productos (snd (procesar_pago (ejecutar ops s) u)) \<noteq> productos (ejecutar ops s) \<longrightarrow>
        (\<exists>c. get_carrito (ejecutar ops s) u = Uno c \<and>
           (\<forall>x \<in> set (items_select_related (ejecutar ops s) c).
              cantidad (fst x) \<le> stock (snd x))))"
  using assms sn_ejecutar pago_cambia_validado by blast

theorem no_sobreventa_witness:
  "stock_no_negativo (ejecutar [Agregar 7 2, Pagar 7] bd_un_item) \<and>
   productos (ejecutar [Agregar 7 2, Pagar 7] bd_un_item) =
     [prod_A\<lparr>stock := 3\<rparr>, prod_B\<lparr>stock := 1\<rparr>] \<and>
   productos (snd (procesar_pago (ejecutar [] bd_un_item) 7)) \<noteq>
     productos (ejecutar [] bd_un_item) \<and>
   get_carrito (ejecutar [] bd_un_item) 7 = Uno \<lparr>c_id = 1, usuario = 7\<rparr> \<and>
   list_all (\<lambda>x. cantidad (fst x) \<le> stock (snd x))
     (items_select_related (ejecutar [] bd_un_item) \<lparr>c_id = 1, usuario = 7\<rparr>)"
proof -
  have h: "stock_no_negativo bd_un_item"
    by (simp add: stock_no_negativo_def ejemplos_defs)
  have p: "productos (ejecutar [Agregar 7 2, Pagar 7] bd_un_item) =
     [prod_A\<lparr>stock := 3\<rparr>, prod_B\<lparr>stock := 1\<rparr>]"
    by (simp add: ejecutar_def vistas_defs ejemplos_defs)
  have q: "productos (snd (procesar_pago (ejecutar [] bd_un_item) 7)) \<noteq>
      productos (ejecutar [] bd_un_item)"
    by (simp add: ejecutar_def vistas_defs ejemplos_defs)
  have g: "get_carrito (ejecutar [] bd_un_item) 7 = Uno \<lparr>c_id = 1, usuario = 7\<rparr>"
    by (simp add: ejecutar_def get_carrito_def ejemplos_defs)
  have "\<exists>c. get_carrito (ejecutar [] bd_un_item) 7 = Uno c \<and>
      (\<forall>x \<in> set (items_select_related (ejecutar [] bd_un_item) c).
          cantidad (fst x) \<le> stock (snd x))"
    using no_sobreventa [OF h, of "[]"] q by blast
  then have v: "list_all (\<lambda>x. cantidad (fst x) \<le> stock (snd x))
     (items_select_related (ejecutar [] bd_un_item) \<lparr>c_id = 1, usuario = 7\<rparr>)"
    using g by (auto simp: list_all_iff)
  show ?thesis
    using no_sobreventa [OF h, of "[Agregar 7 2, Pagar 7]"] p q g v by blast
qed

section \<open>Uniqueness of carts and items\<close>

lemma menor_no_esta: "list_all (\<lambda>k. k < (n::nat)) ks \<Longrightarrow> n \<notin> set ks"
  by (auto simp: list_all_iff)

lemma menor_Suc: "list_all (\<lambda>k. k < (n::nat)) ks \<Longrightarrow> list_all (\<lambda>k. k < Suc n) ks"
  by (auto simp: list_all_iff)

lemma unico_save_item:
  assumes "inv_unico s" and "it \<in> set (items s)"
  shows "inv_unico (save_item (it\<lparr>cantidad := n\<rparr>) s)"
proof -
  have d: "distinct (map i_id (items s))"
    using assms(1) by (simp add: inv_unico_def)
  have eq: "items (save_item (it\<lparr>cantidad := n\<rparr>) s) =
      map (\<lambda>j. if i_id j = i_id it then j\<lparr>cantidad := n\<rparr> else j) (items s)"
    using map_save_distinct [OF d assms(2), of n] by (simp add: save_item_def)
  have "map i_id (items (save_item (it\<lparr>cantidad := n\<rparr>) s)) = map i_id (items s)"
    unfolding eq by (induction "items s") auto
  moreover have
    "map (\<lambda>i. (carrito_id i, producto_id i)) (items (save_item (it\<lparr>cantidad := n\<rparr>) s)) =
     map (\<lambda>i. (carrito_id i, producto_id i)) (items s)"
    unfolding eq by (simp add: comp_def if_distrib cong: if_cong)
  moreover have "carritos (save_item (it\<lparr>cantidad := n\<rparr>) s) = carritos s"
    by (simp add: save_item_def)
  moreover have "seq_carrito (save_item (it\<lparr>cantidad := n\<rparr>) s) = seq_carrito s"
    and "seq_item (save_item (it\<lparr>cantidad := n\<rparr>) s) = seq_item s"
    by (simp_all add: save_item_def)
  ultimately show ?thesis
    using assms(1) by (simp add: inv_unico_def unicidad_def)
qed

lemma unico_delete_item: "inv_unico s \<Longrightarrow> inv_unico (delete_item it s)"
  by (auto simp: inv_unico_def unicidad_def delete_item_def distinct_map_filter list_all_iff)

lemma unico_delete_items: "inv_unico s \<Longrightarrow> inv_unico (delete_items c s)"
  by (auto simp: inv_unico_def unicidad_def delete_items_def distinct_map_filter list_all_iff)

lemma unico_create_item:
  assumes "inv_unico s"
    and "filter (\<lambda>i. carrito_id i = c_id c \<and> producto_id i = p_id p) (items s) = []"
  shows "inv_unico (create_item c p s)"
proof -
  have "(c_id c, p_id p) \<notin> set (map (\<lambda>i. (carrito_id i, producto_id i)) (items s))"
    using assms(2) by (auto simp: filter_empty_conv)
  moreover have "seq_item s \<notin> set (map i_id (items s))"
    using assms(1) by (intro menor_no_esta) (simp add: inv_unico_def)
  moreover have "list_all (\<lambda>k. k < Suc (seq_item s)) (map i_id (items s))"
    using assms(1) by (intro menor_Suc) (simp add: inv_unico_def)
  ultimately show ?thesis
    using assms(1) by (simp add: inv_unico_def unicidad_def create_item_def)
qed

lemma unico_get_or_create:
  assumes "inv_unico s" and "get_or_create_carrito s u = Inr (c, s1)"
  shows "inv_unico s1"
proof (cases "get_carrito s u")
  case Ninguno
  then have "filter (\<lambda>c. usuario c = u) (carritos s) = []"
    by (simp add: get_carrito_def objects_get_Ninguno)
  then have "u \<notin> set (map usuario (carritos s))"
    by (auto simp: filter_empty_conv)
  moreover have "seq_carrito s \<notin> set (map c_id (carritos s))"
    using assms(1) by (intro menor_no_esta) (simp add: inv_unico_def)
  moreover have "list_all (\<lambda>k. k < Suc (seq_carrito s)) (map c_id (carritos s))"
    using assms(1) by (intro menor_Suc) (simp add: inv_unico_def)
  ultimately show ?thesis
    using assms Ninguno
    by (auto simp: get_or_create_carrito_def Let_def inv_unico_def unicidad_def)
qed (use assms in \<open>auto simp: get_or_create_carrito_def\<close>)

lemma unico_agregar:
  assumes "inv_unico s"
  shows "inv_unico (snd (agregar_al_carrito s u pid))"
proof (cases "get_producto s pid")
  case (Uno pro)
  show ?thesis
  proof (cases "get_or_create_carrito s u")
    case (Inl e)
    then show ?thesis using Uno assms by (simp add: agregar_al_carrito_def)
  next
    case (Inr r)
    obtain car s1 where r: "r = (car, s1)" by (cases r)
    have s1: "inv_unico s1"
      using unico_get_or_create [OF assms] Inr r by simp
    let ?q = "objects_get (filter (\<lambda>i. carrito_id i = c_id car \<and>
                producto_id i = p_id pro) (items s1))"
    show ?thesis
    proof (cases ?q)
      case Ninguno
      then show ?thesis using Uno Inr r s1
        by (simp add: agregar_al_carrito_def unico_create_item objects_get_Ninguno)
    next
      case (Uno it)
      then have "it \<in> set (items s1)" using objects_get_Uno_mem by fastforce
      then show ?thesis
        using \<open>get_producto s pid = Uno pro\<close> Inr r s1 Uno
        by (simp add: agregar_al_carrito_def unico_save_item)
    next
      case Varios
      then show ?thesis using Uno Inr r s1 by (simp add: agregar_al_carrito_def)
    qed
  qed
qed (use assms in \<open>simp_all add: agregar_al_carrito_def\<close>)

lemma unico_actualizar:
  assumes "inv_unico s"
  shows "inv_unico (snd (actualizar_carrito s u item_id action cant))"
proof (cases "get_item s item_id u")
  case (Uno it)
  then have "it \<in> set (items s)" by (rule get_item_Uno)
  then show ?thesis
    using Uno assms
    by (simp add: actualizar_carrito_def con_producto_def Let_def unico_save_item
        unico_delete_item split: option.splits consulta.splits)
qed (use assms in \<open>simp_all add: actualizar_carrito_def\<close>)

lemma unico_eliminar:
  "inv_unico s \<Longrightarrow> inv_unico (snd (eliminar_del_carrito s u item_id))"
  by (simp add: eliminar_del_carrito_def con_producto_def unico_delete_item
      split: consulta.splits)

lemma unico_vaciar: "inv_unico s \<Longrightarrow> inv_unico (snd (vaciar_carrito s u))"
  by (simp add: vaciar_carrito_def unico_delete_items split: consulta.splits)

lemma p_id_actualizar_stock:
  "map p_id (productos (actualizar_stock its s)) = map p_id (productos s)"
proof (induction its s rule: actualizar_stock.induct)
  case (1 s)
  then show ?case by simp
next
  case (2 it p rest s)
  have "map p_id (productos (save_producto (p\<lparr>stock := stock p - cantidad it\<rparr>) s)) =
        map p_id (productos s)"
    by (induction "productos s") (auto simp: save_producto_def)
  then show ?case using 2 by simp
qed

lemma unico_actualizar_stock: "inv_unico s \<Longrightarrow> inv_unico (actualizar_stock its s)"
  by (simp add: inv_unico_def unicidad_def)

lemma p_id_pagar: "map p_id (productos (snd (procesar_pago s u))) = map p_id (productos s)"
  by (simp add: procesar_pago_def Let_def p_id_actualizar_stock
      split: consulta.splits option.splits)

lemma p_id_paso: "map p_id (productos (paso op s)) = map p_id (productos s)"
  by (cases op)
     (simp_all add: p_id_pagar productos_agregar productos_actualizar productos_eliminar
        productos_vaciar)

lemma p_id_ejecutar: "map p_id (productos (ejecutar ops s)) = map p_id (productos s)"
  unfolding ejecutar_def by (induction ops arbitrary: s) (simp_all add: p_id_paso)

lemma unico_pagar: "inv_unico s \<Longrightarrow> inv_unico (snd (procesar_pago s u))"
  by (simp add: procesar_pago_def Let_def unico_actualizar_stock unico_delete_items
      split: consulta.splits option.splits)

lemma unico_paso: "inv_unico s \<Longrightarrow> inv_unico (paso op s)"
  by (cases op)
     (simp_all add: unico_agregar unico_actualizar unico_eliminar unico_vaciar unico_pagar)

lemma unico_ejecutar: "inv_unico s \<Longrightarrow> inv_unico (ejecutar ops s)"
  unfolding ejecutar_def by (induction ops arbitrary: s) (simp_all add: unico_paso)

lemma inv_unico_inicial: "inv_unico (bd_inicial ps)"
  by (simp add: inv_unico_def unicidad_def bd_inicial_def)

text \<open>
  C8. Uniqueness. In every database reached from one without carts (and any products) by
  any sequence of cart requests, no two cart rows have the same user and no two item rows
  have the same cart and product: adding a product that is already in the cart updates
  the existing row.
\<close>

theorem unicidad_alcanzable: "unicidad (ejecutar ops (bd_inicial ps))"
proof -
  have "inv_unico (ejecutar ops (bd_inicial ps))"
    using inv_unico_inicial by (rule unico_ejecutar)
  then show ?thesis by (simp add: inv_unico_def)
qed

text \<open>
  User 7 adds product A twice and user 8 adds it once: one row per cart, the first with
  quantity 2.
\<close>

theorem unicidad_alcanzable_witness:
  "unicidad (ejecutar [Agregar 7 1, Agregar 7 1, Agregar 8 1] (bd_inicial [prod_A, prod_B])) \<and>
   ejecutar [Agregar 7 1, Agregar 7 1, Agregar 8 1] (bd_inicial [prod_A, prod_B]) =
     \<lparr>productos = [prod_A, prod_B],
      carritos = [\<lparr>c_id = 1, usuario = 7\<rparr>, \<lparr>c_id = 2, usuario = 8\<rparr>],
      items = [\<lparr>i_id = 1, carrito_id = 1, producto_id = 1, cantidad = 2\<rparr>,
               \<lparr>i_id = 2, carrito_id = 2, producto_id = 1, cantidad = 1\<rparr>],
      seq_carrito = 3, seq_item = 3\<rparr>"
  using unicidad_alcanzable [of "[Agregar 7 1, Agregar 7 1, Agregar 8 1]" "[prod_A, prod_B]"]
  by (simp add: ejecutar_def vistas_defs ejemplos_defs)

section \<open>Successful checkout\<close>

lemma find_mem: "find P xs = Some x \<Longrightarrow> x \<in> set xs \<and> P x"
  by (induction xs) (auto split: if_splits)

lemma actualizar_stock_productos:
  assumes "distinct (map (\<lambda>x. p_id (snd x)) its)"
  shows "productos (actualizar_stock its s) =
     map (\<lambda>q. case find (\<lambda>x. p_id (snd x) = p_id q) its of
                 None \<Rightarrow> q
               | Some x \<Rightarrow> (snd x)\<lparr>stock := stock (snd x) - cantidad (fst x)\<rparr>)
         (productos s)"
  using assms
proof (induction its arbitrary: s)
  case Nil
  then show ?case by simp
next
  case (Cons x its)
  obtain it p where x: "x = (it, p)" by (cases x)
  let ?p' = "p\<lparr>stock := stock p - cantidad it\<rparr>"
  have fresh: "find (\<lambda>y. p_id (snd y) = p_id p) its = None"
  proof -
    have "\<forall>y \<in> set its. p_id (snd y) \<noteq> p_id p"
      using Cons.prems x by (auto simp: image_iff)
    then show ?thesis by (force simp: find_None_iff)
  qed
  have d: "distinct (map (\<lambda>x. p_id (snd x)) its)" using Cons.prems by simp
  show ?case
    unfolding x actualizar_stock.simps Cons.IH [OF d]
    using fresh by (auto simp: save_producto_def)
qed

lemma distinct_select_related:
  assumes "distinct (map p_id ps)" and "distinct (map producto_id xs)"
  shows "distinct (map (\<lambda>x. p_id (snd x))
           (concat (map (\<lambda>i. map (Pair i) (filter (\<lambda>p. p_id p = producto_id i) ps)) xs)))"
  using assms(2)
proof (induction xs)
  case Nil
  then show ?case by simp
next
  case (Cons i xs)
  have "distinct (map p_id (filter (\<lambda>p. p_id p = producto_id i) ps))"
    using assms(1) by (rule distinct_map_filter)
  then have a: "distinct (map (\<lambda>x. p_id (snd x)) (map (Pair i) (filter (\<lambda>p. p_id p = producto_id i) ps)))"
    by (simp add: comp_def)
  have b: "producto_id i \<notin> producto_id ` set xs" using Cons.prems by simp
  show ?case using Cons a b by (auto simp: comp_def)
qed

lemma distinct_producto_id_carrito:
  assumes "unicidad s"
  shows "distinct (map producto_id (filter (\<lambda>i. carrito_id i = c_id c) (items s)))"
proof -
  have "distinct (map (\<lambda>i. (carrito_id i, producto_id i)) (filter (\<lambda>i. carrito_id i = c_id c) (items s)))"
    using assms by (simp add: unicidad_def distinct_map_filter)
  then show ?thesis
    by (auto simp: distinct_map inj_on_def)
qed

lemma distinct_items_select_related:
  assumes "distinct (map p_id (productos s))"
    and "distinct (map producto_id (filter (\<lambda>i. carrito_id i = c_id c) (items s)))"
  shows "distinct (map (\<lambda>x. p_id (snd x)) (items_select_related s c))"
  unfolding items_select_related_def
  using assms by (rule distinct_select_related)

lemma get_producto_map:
  assumes "distinct (map p_id ps)" and "q \<in> set ps" and "\<And>x. p_id (h x) = p_id x"
  shows "objects_get (filter (\<lambda>p. p_id p = p_id q) (map h ps)) = Uno (h q)"
  using assms(1,2)
proof (induction ps)
  case Nil
  then show ?case by simp
next
  case (Cons x ps)
  show ?case
  proof (cases "x = q")
    case True
    then have "\<forall>p \<in> set ps. p_id p \<noteq> p_id q" using Cons.prems(1) by (auto simp: image_iff)
    then have "filter (\<lambda>p. p_id p = p_id q) (map h ps) = []"
      using assms(3) by (auto simp: filter_empty_conv)
    then show ?thesis using True assms(3) by simp
  next
    case False
    then have "q \<in> set ps" using Cons.prems(2) by simp
    moreover have "p_id x \<noteq> p_id q"
      using Cons.prems(1) \<open>q \<in> set ps\<close> by (auto simp: image_iff)
    ultimately show ?thesis using Cons assms(3) by simp
  qed
qed

text \<open>
  C3, as stated, fails. In \<open>bd_filas_duplicadas\<close> the cart of user 7 is not empty and each
  of its two rows, of quantities 2 and 3, is within the stock 5 of A. Checkout succeeds,
  but the second save overwrites the first: the stock of A ends at 2, which is neither
  5 - 2 nor 5 - 2 - 3.
\<close>

theorem procesar_pago_filas_duplicadas:
  "distinct (map p_id (productos bd_filas_duplicadas)) \<and>
   get_carrito bd_filas_duplicadas 7 = Uno \<lparr>c_id = 1, usuario = 7\<rparr> \<and>
   items_select_related bd_filas_duplicadas \<lparr>c_id = 1, usuario = 7\<rparr> =
     [(\<lparr>i_id = 1, carrito_id = 1, producto_id = 1, cantidad = 2\<rparr>, prod_A),
      (\<lparr>i_id = 2, carrito_id = 1, producto_id = 1, cantidad = 3\<rparr>, prod_A)] \<and>
   2 \<le> stock prod_A \<and> 3 \<le> stock prod_A \<and>
   fst (procesar_pago bd_filas_duplicadas 7) = Redirect Catalogo Msg_success Pago_procesado \<and>
   get_producto (snd (procesar_pago bd_filas_duplicadas 7)) 1 = Uno (prod_A\<lparr>stock := 2\<rparr>) \<and>
   get_producto (snd (procesar_pago bd_filas_duplicadas 7)) 1 \<noteq>
     Uno (prod_A\<lparr>stock := stock prod_A - 2\<rparr>) \<and>
   get_producto (snd (procesar_pago bd_filas_duplicadas 7)) 1 \<noteq>
     Uno (prod_A\<lparr>stock := stock prod_A - 2 - 3\<rparr>)"
  by (simp add: vistas_defs ejemplos_defs)

text \<open>
  C3, amended. Successful checkout of a cart that holds at most one row per product. If
  the product keys are unique, the user's cart holds at least one item, no two items of
  it refer to the same product, and every item of it has a product row with enough
  stock, then \<open>procesar_pago\<close> succeeds; the stock of each product an item of the cart
  refers to is the old stock minus that item's quantity; every other product row is
  unchanged; no item of the cart is left, while the items of other carts and all cart
  rows, the user's included, are as before.
\<close>

theorem procesar_pago_exito:
  assumes "distinct (map p_id (productos s))"
    and "distinct (map producto_id (filter (\<lambda>i. carrito_id i = c_id c) (items s)))"
    and "get_carrito s u = Uno c"
    and "\<exists>it \<in> set (items s). carrito_id it = c_id c"
    and "\<forall>it \<in> set (items s). carrito_id it = c_id c \<longrightarrow>
           (\<exists>p \<in> set (productos s). p_id p = producto_id it \<and> cantidad it \<le> stock p)"
  shows "fst (procesar_pago s u) = Redirect Catalogo Msg_success Pago_procesado \<and>
     (\<forall>it \<in> set (items s). carrito_id it = c_id c \<longrightarrow>
        (\<forall>p \<in> set (productos s). p_id p = producto_id it \<longrightarrow>
           get_producto (snd (procesar_pago s u)) (p_id p) =
             Uno (p\<lparr>stock := stock p - cantidad it\<rparr>))) \<and>
     (\<forall>p \<in> set (productos s).
        (\<forall>it \<in> set (items s). carrito_id it = c_id c \<longrightarrow> producto_id it \<noteq> p_id p) \<longrightarrow>
           get_producto (snd (procesar_pago s u)) (p_id p) = Uno p) \<and>
     items (snd (procesar_pago s u)) = filter (\<lambda>i. carrito_id i \<noteq> c_id c) (items s) \<and>
     carritos (snd (procesar_pago s u)) = carritos s \<and>
     get_carrito (snd (procesar_pago s u)) u = Uno c"
proof -
  let ?its = "items_select_related s c"
  let ?h = "\<lambda>q. case find (\<lambda>x. p_id (snd x) = p_id q) ?its of
                 None \<Rightarrow> q
               | Some x \<Rightarrow> (snd x)\<lparr>stock := stock (snd x) - cantidad (fst x)\<rparr>"
  let ?s' = "delete_items c (actualizar_stock ?its s)"
  have dp: "distinct (map p_id (productos s))" using assms(1) .
  have uniq_p: "p = q" if "p \<in> set (productos s)" "q \<in> set (productos s)" "p_id p = p_id q" for p q
    using dp that by (auto simp: distinct_map inj_on_def)
  have d: "distinct (map (\<lambda>x. p_id (snd x)) ?its)"
    using assms(1,2) by (rule distinct_items_select_related)
  have uniq_x: "x = y" if "x \<in> set ?its" "y \<in> set ?its" "p_id (snd x) = p_id (snd y)" for x y
    using d that by (auto simp: distinct_map inj_on_def)
  obtain it0 where it0: "it0 \<in> set (items s)" "carrito_id it0 = c_id c" using assms(4) by blast
  then obtain p0 where "p0 \<in> set (productos s)" "p_id p0 = producto_id it0"
    using assms(5) by blast
  then have "(it0, p0) \<in> set ?its" using it0 by (simp add: in_items_select_related)
  then have ne: "?its \<noteq> []" by auto
  have ok: "verificar_stock ?its = None"
    unfolding verificar_stock_None
  proof
    fix x assume x: "x \<in> set ?its"
    obtain it p where xp: "x = (it, p)" by (cases x)
    then have m: "it \<in> set (items s)" "carrito_id it = c_id c" "p \<in> set (productos s)" "p_id p = producto_id it"
      using x by (simp_all add: in_items_select_related)
    then obtain p' where "p' \<in> set (productos s)" "p_id p' = producto_id it" "cantidad it \<le> stock p'"
      using assms(5) by blast
    then have "p' = p" using uniq_p m by simp
    then show "cantidad (fst x) \<le> stock (snd x)" using xp \<open>cantidad it \<le> stock p'\<close> by simp
  qed
  have res: "procesar_pago s u = (Redirect Catalogo Msg_success Pago_procesado, ?s')"
    using assms(3) ne ok by (simp add: procesar_pago_def)
  have prods: "productos ?s' = map ?h (productos s)"
    using actualizar_stock_productos [OF d, of s] by (simp add: delete_items_def)
  have h_id: "p_id (?h q) = p_id q" for q
    by (auto split: option.splits dest: find_mem)
  have get: "get_producto ?s' (p_id q) = Uno (?h q)" if "q \<in> set (productos s)" for q
    unfolding get_producto_def prods using dp that h_id by (rule get_producto_map)
  have h_item: "?h p = p\<lparr>stock := stock p - cantidad it\<rparr>"
    if "it \<in> set (items s)" "carrito_id it = c_id c" "p \<in> set (productos s)" "p_id p = producto_id it"
    for it p
  proof -
    have mem: "(it, p) \<in> set ?its" using that by (simp add: in_items_select_related)
    have "find (\<lambda>x. p_id (snd x) = p_id p) ?its \<noteq> None"
    proof
      assume "find (\<lambda>x. p_id (snd x) = p_id p) ?its = None"
      then have "\<not> (\<exists>x. x \<in> set ?its \<and> p_id (snd x) = p_id p)"
        unfolding find_None_iff .
      then have "p_id (snd (it, p)) \<noteq> p_id p" using mem by blast
      then show False by simp
    qed
    then obtain x where fx: "find (\<lambda>x. p_id (snd x) = p_id p) ?its = Some x" by auto
    then have "x \<in> set ?its \<and> p_id (snd x) = p_id p" by (rule find_mem)
    then have "x = (it, p)" using uniq_x mem by simp
    then show ?thesis using fx by simp
  qed
  have h_other: "?h p = p"
    if "\<forall>it \<in> set (items s). carrito_id it = c_id c \<longrightarrow> producto_id it \<noteq> p_id p" for p
  proof -
    have "find (\<lambda>x. p_id (snd x) = p_id p) ?its = None"
      using that by (auto simp: find_None_iff in_items_select_related)
    then show ?thesis by simp
  qed
  have items': "items ?s' = filter (\<lambda>i. carrito_id i \<noteq> c_id c) (items s)"
    by (simp add: delete_items_def)
  have carr: "carritos ?s' = carritos s" by (simp add: delete_items_def)
  have gc: "get_carrito ?s' u = Uno c" using assms(3) carr by (simp add: get_carrito_def)
  have dec: "\<forall>it \<in> set (items s). carrito_id it = c_id c \<longrightarrow>
        (\<forall>p \<in> set (productos s). p_id p = producto_id it \<longrightarrow>
           get_producto ?s' (p_id p) = Uno (p\<lparr>stock := stock p - cantidad it\<rparr>))"
  proof (intro ballI impI)
    fix it p
    assume "it \<in> set (items s)" "carrito_id it = c_id c"
      "p \<in> set (productos s)" "p_id p = producto_id it"
    then show "get_producto ?s' (p_id p) = Uno (p\<lparr>stock := stock p - cantidad it\<rparr>)"
      using get [of p] h_item [of it p] by simp
  qed
  have rest: "\<forall>p \<in> set (productos s).
        (\<forall>it \<in> set (items s). carrito_id it = c_id c \<longrightarrow> producto_id it \<noteq> p_id p) \<longrightarrow>
           get_producto ?s' (p_id p) = Uno p"
  proof (intro ballI impI)
    fix p
    assume "p \<in> set (productos s)"
      "\<forall>it \<in> set (items s). carrito_id it = c_id c \<longrightarrow> producto_id it \<noteq> p_id p"
    then show "get_producto ?s' (p_id p) = Uno p"
      using get [of p] h_other [of p] by simp
  qed
  show ?thesis
    unfolding res fst_conv snd_conv
    using dec rest items' carr gc by blast
qed

text \<open>The example of the specification: A with quantity 2 and stock 5.\<close>

theorem procesar_pago_exito_witness:
  "fst (procesar_pago bd_un_item 7) = Redirect Catalogo Msg_success Pago_procesado \<and>
   get_producto (snd (procesar_pago bd_un_item 7)) 1 = Uno (prod_A\<lparr>stock := 3\<rparr>) \<and>
   get_producto (snd (procesar_pago bd_un_item 7)) 2 = Uno prod_B \<and>
   items (snd (procesar_pago bd_un_item 7)) = [] \<and>
   carritos (snd (procesar_pago bd_un_item 7)) = [\<lparr>c_id = 1, usuario = 7\<rparr>]"
  using procesar_pago_exito [of bd_un_item "\<lparr>c_id = 1, usuario = 7\<rparr>" 7]
  by (simp add: bd_un_item_def prod_A_def prod_B_def get_carrito_def)

text \<open>
  In every database the cart views reach, one request after the other, from a database
  without carts and with unique product keys, the two uniqueness hypotheses hold for
  every cart.
\<close>

lemma alcanzable_sin_repetidos:
  assumes "distinct (map p_id ps)"
  shows "distinct (map p_id (productos (ejecutar ops (bd_inicial ps)))) \<and>
         distinct (map producto_id
           (filter (\<lambda>i. carrito_id i = c_id c) (items (ejecutar ops (bd_inicial ps)))))"
proof -
  have "inv_unico (ejecutar ops (bd_inicial ps))"
    using inv_unico_inicial by (rule unico_ejecutar)
  then have "unicidad (ejecutar ops (bd_inicial ps))" by (simp add: inv_unico_def)
  then have "distinct (map producto_id
      (filter (\<lambda>i. carrito_id i = c_id c) (items (ejecutar ops (bd_inicial ps)))))"
    by (rule distinct_producto_id_carrito)
  moreover have "distinct (map p_id (productos (ejecutar ops (bd_inicial ps))))"
    using assms by (simp add: p_id_ejecutar bd_inicial_def)
  ultimately show ?thesis by simp
qed

section \<open>The catalogue lists only products in stock\<close>

lemma set_paginator_page: "set (paginator_page xs n) \<subseteq> set xs"
  unfolding paginator_page_def
  by (meson set_take_subset set_drop_subset subset_trans)

lemma set_pagina: "set (pagina xs pg) \<subseteq> set xs"
  by (cases pg) (simp_all add: set_paginator_page)

text \<open>
  C10. Whatever the category, the search text and the page asked for, every product on
  the page the catalogue view renders is a row of the product table with stock at least 1;
  a product with stock 0 is never listed.
\<close>

theorem catalogo_solo_con_stock:
  assumes "catalogo icontains s categoria q page = Inr ps"
  shows "\<forall>p \<in> set ps. p \<in> set (productos s) \<and> 1 \<le> stock p"
proof
  fix p assume p: "p \<in> set ps"
  have "p \<in> set (filter (\<lambda>p. stock p > 0) (productos s))"
    using assms p
    by (auto simp: catalogo_def Let_def split: parametro.splits option.splits if_splits
        dest!: set_pagina [THEN subsetD])
  then show "p \<in> set (productos s) \<and> 1 \<le> stock p" by simp
qed


text \<open>C has stock 0 and is left out; B is newer than A and comes first.\<close>

theorem catalogo_solo_con_stock_witness:
  "catalogo (\<lambda>a b. False) bd_catalogo Ausente None Ausente = Inr [prod_B, prod_A] \<and>
   prod_B \<in> set (productos bd_catalogo) \<and> 1 \<le> stock prod_B \<and>
   prod_A \<in> set (productos bd_catalogo) \<and> 1 \<le> stock prod_A"
proof -
  have c: "catalogo (\<lambda>a b. False) bd_catalogo Ausente None Ausente = Inr [prod_B, prod_A]"
    by (simp add: catalogo_def ejemplos_defs paginator_page_def)
  show ?thesis using c catalogo_solo_con_stock [OF c] by simp
qed

text \<open>
  The out-of-stock product C is not listed, but its detail page is served and the
  add-to-cart view accepts it.
\<close>

lemma agotado_accesible:
  "producto_detalle bd_catalogo 3 = Uno prod_agotado \<and>
   fst (agregar_al_carrito bd_catalogo 8 3) = Redirect Ver_carrito Msg_success (Anadido ''C'')"
  by (simp add: producto_detalle_def vistas_defs ejemplos_defs)

end
